theory Spec2Isabelle
  imports Complex_Main "HOL-Library.Multiset"
begin

section \<open>JavaScript numbers as the handlers use them\<close>

text \<open>
  A JavaScript number is a finite value, one of the two infinities, or NaN. Finite doubles
  are read as the reals they denote. The handlers only compare such numbers (through the
  sign of a difference) and test them for truthiness; both agree with the reals: the
  difference of two finite doubles is zero exactly when they are equal, and keeps its sign
  when it is rounded or overflows.
\<close>

datatype jsnum = Fin real | PInf | NInf | NaN

text \<open>\<^verbatim>\<open>ToBoolean\<close> of a number: zero and NaN are falsy.\<close>

fun truthy :: "jsnum \<Rightarrow> bool" where
  "truthy (Fin x) = (x \<noteq> 0)"
| "truthy PInf = True"
| "truthy NInf = True"
| "truthy NaN = False"

text \<open>The operator \<^verbatim>\<open>a - b\<close> on numbers.\<close>

fun js_sub :: "jsnum \<Rightarrow> jsnum \<Rightarrow> jsnum" where
  "js_sub NaN _ = NaN"
| "js_sub _ NaN = NaN"
| "js_sub (Fin x) (Fin y) = Fin (x - y)"
| "js_sub (Fin x) PInf = NInf"
| "js_sub (Fin x) NInf = PInf"
| "js_sub PInf (Fin y) = PInf"
| "js_sub NInf (Fin y) = NInf"
| "js_sub PInf PInf = NaN"
| "js_sub NInf NInf = NaN"
| "js_sub PInf NInf = PInf"
| "js_sub NInf PInf = NInf"

text \<open>\<^verbatim>\<open>v > 0\<close>, the only test \<^verbatim>\<open>Array.prototype.sort\<close> needs of a comparator's result.\<close>

fun positive :: "jsnum \<Rightarrow> bool" where
  "positive (Fin x) = (0 < x)"
| "positive PInf = True"
| "positive NInf = False"
| "positive NaN = False"

section \<open>\<^verbatim>\<open>Array.prototype.sort\<close> with a comparator\<close>

text \<open>
  The library sort is stable, and a comparator result of NaN counts as \<open>+0\<close>. For a
  consistent comparator the result is then fixed: the stable ordering of the input. It is
  modelled by stable insertion: an element moves behind exactly those elements it compares
  greater than.
\<close>

fun sort_insert :: "('a \<Rightarrow> 'a \<Rightarrow> jsnum) \<Rightarrow> 'a \<Rightarrow> 'a list \<Rightarrow> 'a list" where
  "sort_insert cmp x [] = [x]"
| "sort_insert cmp x (y # ys) =
     (if positive (cmp x y) then y # sort_insert cmp x ys else x # y # ys)"

fun js_sort :: "('a \<Rightarrow> 'a \<Rightarrow> jsnum) \<Rightarrow> 'a list \<Rightarrow> 'a list" where
  "js_sort cmp [] = []"
| "js_sort cmp (x # xs) = sort_insert cmp x (js_sort cmp xs)"

text \<open>
  A comparator is consistent when "compares greater" is asymmetric and its complement is
  transitive; the library fixes the result of the sort only for such comparators.
\<close>

definition consistent :: "('a \<Rightarrow> 'a \<Rightarrow> jsnum) \<Rightarrow> bool" where
  "consistent cmp \<longleftrightarrow>
     (\<forall>a b. positive (cmp a b) \<longrightarrow> \<not> positive (cmp b a)) \<and>
     (\<forall>a b c. \<not> positive (cmp a b) \<longrightarrow> \<not> positive (cmp b c) \<longrightarrow> \<not> positive (cmp a c))"

section \<open>Promises and \<^verbatim>\<open>fetchJSON\<close>\<close>

text \<open>A thrown value: the name of its class and its \<open>message\<close>.\<close>

datatype js_error = JsError string string

fun message :: "js_error \<Rightarrow> string" where
  "message (JsError _ m) = m"

text \<open>\<^verbatim>\<open>new Error(m)\<close>\<close>

definition Error :: "string \<Rightarrow> js_error" where
  "Error m = JsError ''Error'' m"

datatype 'a settled = Fulfilled 'a | Rejected js_error

text \<open>
  A promise is given by the instant at which it settles, in milliseconds after the handler
  was entered, and by what it settles to. Time is logical: the model only orders instants.
\<close>

type_synonym 'a promise = "nat \<times> 'a settled"

fun is_rejected :: "'a promise \<Rightarrow> bool" where
  "is_rejected (_, Rejected _) = True"
| "is_rejected (_, Fulfilled _) = False"

text \<open>
  \<^verbatim>\<open>Promise.all\<close> of two promises: fulfilled once both are, rejected as soon as one is,
  with the reason of the first to reject. \<^verbatim>\<open>Promise.all\<close> of a longer array is the nesting
  of this to the right, where two rejections at one instant leave that of the lower index.
\<close>

fun all_pair :: "'a promise \<Rightarrow> 'b promise \<Rightarrow> ('a \<times> 'b) promise" where
  "all_pair (s, Fulfilled a) (t, Fulfilled b) = (max s t, Fulfilled (a, b))"
| "all_pair (s, Rejected d) (t, Fulfilled b) = (s, Rejected d)"
| "all_pair (s, Fulfilled a) (t, Rejected e) = (t, Rejected e)"
| "all_pair (s, Rejected d) (t, Rejected e) = (if s \<le> t then (s, Rejected d) else (t, Rejected e))"

text \<open>\<^verbatim>\<open>p.catch(() => null)\<close>\<close>

fun catch_null :: "'a promise \<Rightarrow> 'a option promise" where
  "catch_null (t, Fulfilled a) = (t, Fulfilled (Some a))"
| "catch_null (t, Rejected e) = (t, Fulfilled None)"

text \<open>
  The rest of an \<^verbatim>\<open>async\<close> function after its \<^verbatim>\<open>await\<close>: it runs on the awaited value, and
  what it throws rejects the function's promise.
\<close>

fun and_then :: "('a \<Rightarrow> js_error + 'b) \<Rightarrow> 'a promise \<Rightarrow> 'b promise" where
  "and_then f (t, Fulfilled a) = (t, case f a of Inl e \<Rightarrow> Rejected e | Inr b \<Rightarrow> Fulfilled b)"
| "and_then f (t, Rejected e) = (t, Rejected e)"

text \<open>
  What the network does with one request, as a test double would script it: \<open>Responds t
  status body\<close> answers after \<open>t\<close> ms with an HTTP status and a body that parses as JSON or
  makes \<^verbatim>\<open>response.json()\<close> reject; \<open>Fails t e\<close> makes \<^verbatim>\<open>fetch\<close> reject after \<open>t\<close> ms; \<open>Hangs\<close>
  never answers.
\<close>

datatype 'a json_result = Json 'a | JsonFails js_error

datatype 'a fetch_behaviour = Responds nat nat "'a json_result" | Fails nat js_error | Hangs

text \<open>\<^verbatim>\<open>response.ok\<close>\<close>

definition ok :: "nat \<Rightarrow> bool" where
  "ok status \<longleftrightarrow> 200 \<le> status \<and> status \<le> 299"

text \<open>A number in a template literal: its decimal digits.\<close>

definition digit :: "nat \<Rightarrow> char" where
  "digit d = char_of (d + 48)"

fun string_of_nat :: "nat \<Rightarrow> string" where
  "string_of_nat n =
     (if 10 \<le> n then string_of_nat (n div 10) @ [digit (n mod 10)] else [digit n])"

text \<open>
  The delay after which a timer set for \<open>timeout\<close> ms fires: a delay of zero or less fires
  at once, a delay above the timer's range of \<open>2^31 - 1\<close> ms fires after 1 ms.
\<close>

definition timer_delay :: "int \<Rightarrow> nat" where
  "timer_delay timeout = (if 2147483647 < timeout then 1 else nat timeout)"

text \<open>
  \<^verbatim>\<open>fetchJSON(url, timeout)\<close>. The result is the list of URLs handed to \<^verbatim>\<open>fetch\<close> and the
  promise returned. The call makes its own \<^verbatim>\<open>AbortController\<close> and arms a timer of \<open>timeout\<close>
  ms on it; if \<^verbatim>\<open>fetch\<close> has not settled when the timer fires, the controller aborts it and
  \<^verbatim>\<open>fetch\<close> rejects with the runtime's abort error, whose message is \<open>abort_message\<close>. A
  settlement of \<^verbatim>\<open>fetch\<close> at instant 0 is seen before any timer runs, whatever the delay: the
  \<^verbatim>\<open>await\<close> resumes ahead of the timer's callback. A later settlement at the very instant of
  the timer is given to the timer. Every rejection of \<^verbatim>\<open>fetch\<close> and the status check are
  rethrown by the \<^verbatim>\<open>catch\<close> as \<^verbatim>\<open>Fetch failed: ...\<close>. The timer is cleared before the body is
  read, and \<^verbatim>\<open>response.json()\<close> is returned without \<^verbatim>\<open>await\<close>, so its rejection passes
  unchanged. The body is taken to be read at the instant of the response.
\<close>

definition aborted :: "string \<Rightarrow> int \<Rightarrow> 'a promise" where
  "aborted abort_message timeout =
     (timer_delay timeout, Rejected (Error (''Fetch failed: '' @ abort_message)))"

definition fetchJSON ::
  "string \<Rightarrow> (string \<Rightarrow> 'a fetch_behaviour) \<Rightarrow> string \<Rightarrow> int \<Rightarrow> string list \<times> 'a promise" where
  "fetchJSON abort_message fetch url timeout =
     ([url],
      case fetch url of
        Responds t status body \<Rightarrow>
          if t = 0 \<or> t < timer_delay timeout then
            (if \<not> ok status
             then (t, Rejected (Error (''Fetch failed: '' @ message (Error (''API error: '' @ string_of_nat status)))))
             else (t, case body of Json v \<Rightarrow> Fulfilled v | JsonFails e \<Rightarrow> Rejected e))
          else aborted abort_message timeout
      | Fails t e \<Rightarrow>
          if t = 0 \<or> t < timer_delay timeout then (t, Rejected (Error (''Fetch failed: '' @ message e)))
          else aborted abort_message timeout
      | Hangs \<Rightarrow> aborted abort_message timeout)"

section \<open>The upstream documents and the runtime\<close>

text \<open>
  The handlers receive the parsed documents untyped. The records below give them the shape
  the handlers read; a document of another shape (a missing object, a field of another
  type) is outside the model.
\<close>

record apod =
  title :: string
  date :: string
  explanation :: string
  url :: string
  media_type :: string

record person =
  person_name :: string
  craft :: string

record astros =
  number :: int
  people :: "person list"

record iss =
  latitude :: string
  longitude :: string

record approach =
  close_approach_date :: string
  miss_distance_kilometers :: string
  relative_velocity_kilometers_per_hour :: string

record neo =
  neo_name :: string
  neo_id :: string
  estimated_diameter_min :: real
  estimated_diameter_max :: real
  is_potentially_hazardous_asteroid :: bool
  close_approach_data :: "approach list"

text \<open>
  \<open>near_earth_objects\<close> is an object keyed by date; \<^verbatim>\<open>Object.entries\<close> and \<^verbatim>\<open>Object.values\<close>
  walk it in the order of the document, which the association list keeps.
\<close>

record feed =
  element_count :: int
  near_earth_objects :: "(string \<times> neo list) list"

text \<open>
  What the process and the runtime supply: the API key, the message of the abort error,
  \<^verbatim>\<open>parseFloat\<close>, the date arithmetic of \<^verbatim>\<open>Date\<close> (the ISO string of the day three days after
  a date string, or the \<^verbatim>\<open>RangeError\<close> that \<^verbatim>\<open>toISOString\<close> throws on an invalid date), and
  \<^verbatim>\<open>fetch\<close>, scripted per document type.
\<close>

record runtime =
  NASA_API_KEY :: string
  abort_message :: string
  parseFloat :: "string \<Rightarrow> jsnum"
  three_days_after :: "string \<Rightarrow> js_error + string"
  fetch_apod :: "string \<Rightarrow> apod fetch_behaviour"
  fetch_astros :: "string \<Rightarrow> astros fetch_behaviour"
  fetch_iss :: "string \<Rightarrow> iss fetch_behaviour"
  fetch_neo :: "string \<Rightarrow> feed fetch_behaviour"

text \<open>
  The readings of \<^verbatim>\<open>new Date()\<close> in one run of a handler, as ISO strings: on entry, for the
  default end of the report's date range (already moved three days on), and for \<open>fetchedAt\<close>.
\<close>

record clock =
  started :: string
  in_three_days :: string
  finished :: string

text \<open>\<^verbatim>\<open>s.split('T')[0]\<close>\<close>

definition before_T :: "string \<Rightarrow> string" where
  "before_T s = takeWhile (\<lambda>c. c \<noteq> CHR ''T'') s"

definition astros_url :: string where
  "astros_url = ''http://api.open-notify.org/astros.json''"

definition apod_url :: "runtime \<Rightarrow> string" where
  "apod_url rt = ''https://api.nasa.gov/planetary/apod?api_key='' @ NASA_API_KEY rt"

definition iss_url :: string where
  "iss_url = ''http://api.open-notify.org/iss-now.json''"

definition neo_url :: "runtime \<Rightarrow> string \<Rightarrow> string \<Rightarrow> string" where
  "neo_url rt start end_date =
     ''https://api.nasa.gov/neo/rest/v1/feed?start_date='' @ start @ ''&end_date='' @ end_date
       @ ''&api_key='' @ NASA_API_KEY rt"

section \<open>The overview entrypoint\<close>

text \<open>\<^verbatim>\<open>[...new Set(xs)]\<close>: the distinct elements in the order of their first occurrence.\<close>

definition distinct_in_order :: "'a list \<Rightarrow> 'a list" where
  "distinct_in_order xs = foldl (\<lambda>seen x. if x \<in> set seen then seen else seen @ [x]) [] xs"

record overview_output =
  humansInSpace :: int
  crafts :: "string list"
  todaysApod :: string
  apodDate :: string
  overview_fetchedAt :: string
  overview_dataSources :: "string list"

definition overview_result :: "astros \<Rightarrow> apod \<Rightarrow> string \<Rightarrow> overview_output" where
  "overview_result astros apod now =
     \<lparr> humansInSpace = number astros,
       crafts = distinct_in_order (map craft (people astros)),
       todaysApod = title apod,
       apodDate = date apod,
       overview_fetchedAt = now,
       overview_dataSources = [''NASA APOD'', ''Open-Notify Astros''] \<rparr>"

definition overview_handler :: "runtime \<Rightarrow> clock \<Rightarrow> string list \<times> overview_output promise" where
  "overview_handler rt clk =
     (let (r1, astros) = fetchJSON (abort_message rt) (fetch_astros rt) astros_url 30000;
          (r2, apod) = fetchJSON (abort_message rt) (fetch_apod rt) (apod_url rt) 30000
      in (r1 @ r2,
          and_then (\<lambda>(astros, apod). Inr (overview_result astros apod (finished clk)))
            (all_pair astros apod)))"

section \<open>The asteroids entrypoint\<close>

subsection \<open>The flattened entries\<close>

record diameter =
  min_km :: real
  max_km :: real

text \<open>
  \<open>None\<close> is \<^verbatim>\<open>undefined\<close> in \<open>approachDate\<close> and \<^verbatim>\<open>null\<close> in the two numeric fields.
\<close>

record asteroid =
  name :: string
  ident :: string
  diameter_km :: diameter
  isPotentiallyHazardous :: bool
  approachDate :: "string option"
  missDistance_km :: "jsnum option"
  relativeVelocity_kph :: "jsnum option"

text \<open>
  One pushed entry; \<open>pf\<close> is \<^verbatim>\<open>parseFloat\<close>. \<^verbatim>\<open>close_approach_data[0]\<close> is \<^verbatim>\<open>undefined\<close> on an
  empty array.
\<close>

definition entry_of :: "(string \<Rightarrow> jsnum) \<Rightarrow> neo \<Rightarrow> asteroid" where
  "entry_of pf n =
     (let approach = (case close_approach_data n of [] \<Rightarrow> None | a # _ \<Rightarrow> Some a) in
      \<lparr> name = neo_name n,
        ident = neo_id n,
        diameter_km = \<lparr> min_km = estimated_diameter_min n, max_km = estimated_diameter_max n \<rparr>,
        isPotentiallyHazardous = is_potentially_hazardous_asteroid n,
        approachDate = map_option close_approach_date approach,
        missDistance_km = map_option (\<lambda>a. pf (miss_distance_kilometers a)) approach,
        relativeVelocity_kph =
          map_option (\<lambda>a. pf (relative_velocity_kilometers_per_hour a)) approach \<rparr>)"

definition flatten :: "(string \<Rightarrow> jsnum) \<Rightarrow> feed \<Rightarrow> asteroid list" where
  "flatten pf data =
     concat (map (\<lambda>(day, neos). map (entry_of pf) neos) (near_earth_objects data))"

subsection \<open>Sorting by closest approach\<close>

text \<open>\<^verbatim>\<open>v || Infinity\<close> on a value that is \<^verbatim>\<open>null\<close> or a number.\<close>

fun or_Infinity :: "jsnum option \<Rightarrow> jsnum" where
  "or_Infinity None = PInf"
| "or_Infinity (Some v) = (if truthy v then v else PInf)"

definition by_missDistance :: "asteroid \<Rightarrow> asteroid \<Rightarrow> jsnum" where
  "by_missDistance a b =
     js_sub (or_Infinity (missDistance_km a)) (or_Infinity (missDistance_km b))"

definition sort_asteroids :: "asteroid list \<Rightarrow> asteroid list" where
  "sort_asteroids = js_sort by_missDistance"

subsection \<open>The output\<close>

record asteroids_output =
  totalCount :: int
  dateRange :: "string \<times> string"
  hazardousCount :: nat
  closestApproach :: "asteroid option"
  asteroids :: "asteroid list"
  fetchedAt :: string

text \<open>
  The handler from the flattening on: \<open>data\<close> is the fetched feed, \<open>start\<close> and \<open>end_date\<close> the
  date range, \<open>now\<close> the clock's reading for \<open>fetchedAt\<close>. The array is sorted in place, so
  the count, the first entry and the slice are taken of the sorted array.
\<close>

definition asteroids_result ::
  "(string \<Rightarrow> jsnum) \<Rightarrow> feed \<Rightarrow> string \<Rightarrow> string \<Rightarrow> string \<Rightarrow> asteroids_output" where
  "asteroids_result pf data start end_date now =
     (let sorted_list = sort_asteroids (flatten pf data) in
      \<lparr> totalCount = element_count data,
        dateRange = (start, end_date),
        hazardousCount = length (filter isPotentiallyHazardous sorted_list),
        closestApproach = (case sorted_list of [] \<Rightarrow> None | a # _ \<Rightarrow> Some a),
        asteroids = take 20 sorted_list,
        fetchedAt = now \<rparr>)"

record asteroids_input =
  startDate :: "string option"
  endDate :: "string option"

text \<open>\<^verbatim>\<open>s || d\<close> on an optional string: the empty string is falsy too.\<close>

fun or_else :: "string option \<Rightarrow> string \<Rightarrow> string" where
  "or_else None d = d"
| "or_else (Some s) d = (if s = [] then d else s)"

text \<open>
  The whole handler. Without an end date the range ends three days after its start; a
  start that is not a date makes \<^verbatim>\<open>toISOString\<close> throw before anything is fetched.
\<close>

definition asteroids_handler ::
  "runtime \<Rightarrow> clock \<Rightarrow> asteroids_input \<Rightarrow> string list \<times> asteroids_output promise" where
  "asteroids_handler rt clk input =
     (let today = before_T (started clk);
          start = or_else (startDate input) today;
          end_date =
            (if or_else (endDate input) [] = []
             then map_sum id before_T (three_days_after rt start)
             else Inr (or_else (endDate input) []))
      in case end_date of
           Inl e \<Rightarrow> ([], (0, Rejected e))
         | Inr end_date \<Rightarrow>
             (let (r, data) =
                    fetchJSON (abort_message rt) (fetch_neo rt) (neo_url rt start end_date) 30000
              in (r, and_then
                       (\<lambda>data. Inr (asteroids_result (parseFloat rt) data start end_date (finished clk)))
                       data)))"

section \<open>The report entrypoint\<close>

text \<open>
  Grouping the astronauts by craft. \<open>byCraft\<close> starts as an empty object literal, so a name
  of \<^verbatim>\<open>Object.prototype\<close> reads as truthy there although no array was stored, and the \<^verbatim>\<open>push\<close>
  on it throws a \<^verbatim>\<open>TypeError\<close>.
\<close>

definition Object_prototype_keys :: "string list" where
  "Object_prototype_keys =
     [''constructor'', ''hasOwnProperty'', ''isPrototypeOf'', ''propertyIsEnumerable'',
      ''toLocaleString'', ''toString'', ''valueOf'', ''__proto__'', ''__defineGetter__'',
      ''__defineSetter__'', ''__lookupGetter__'', ''__lookupSetter__'']"

fun group_by_craft ::
  "(string \<rightharpoonup> string list) \<Rightarrow> person list \<Rightarrow> js_error + (string \<rightharpoonup> string list)" where
  "group_by_craft byCraft [] = Inr byCraft"
| "group_by_craft byCraft (p # ps) =
     (if craft p \<in> set Object_prototype_keys
      then Inl (JsError ''TypeError'' ''byCraft[person.craft].push is not a function'')
      else group_by_craft
             (byCraft(craft p \<mapsto> (case byCraft (craft p) of None \<Rightarrow> [] | Some ns \<Rightarrow> ns) @ [person_name p]))
             ps)"

record apod_summary =
  apod_title :: string
  apod_explanation :: string
  apod_url_of :: string
  mediaType :: string

record humans =
  total :: int
  byCraft :: "string \<rightharpoonup> string list"

datatype iss_location = Position jsnum jsnum | Unavailable

record hazard =
  hazard_name :: string
  diameter_km_max :: real
  hazard_approachDate :: "string option"

record neo_summary =
  totalTracked :: int
  hazardousObjects :: nat
  hazardousList :: "hazard list"

record report =
  report_date :: string
  astronomyPictureOfTheDay :: apod_summary
  humansInSpace_of :: humans
  issLocation :: iss_location
  nearEarthObjects :: "neo_summary option"

record report_output =
  report_of :: report
  report_fetchedAt :: string
  report_dataSources :: "string list"

definition hazard_of :: "neo \<Rightarrow> hazard" where
  "hazard_of a =
     \<lparr> hazard_name = neo_name a,
       diameter_km_max = estimated_diameter_max a,
       hazard_approachDate =
         (case close_approach_data a of [] \<Rightarrow> None | c # _ \<Rightarrow> Some (close_approach_date c)) \<rparr>"

definition asteroidSummary :: "feed \<Rightarrow> neo_summary" where
  "asteroidSummary neo =
     (let hazardous =
            map hazard_of
              (filter is_potentially_hazardous_asteroid (concat (map snd (near_earth_objects neo))))
      in \<lparr> totalTracked = element_count neo,
           hazardousObjects = length hazardous,
           hazardousList = take 5 hazardous \<rparr>)"

text \<open>
  The handler after its \<^verbatim>\<open>await\<close>, on the four awaited values: \<open>iss\<close> is \<open>None\<close> when the
  \<^verbatim>\<open>catch\<close> put \<^verbatim>\<open>null\<close> there, \<open>neo\<close> is \<open>None\<close> when the feed was not asked for.
\<close>

definition report_result ::
  "runtime \<Rightarrow> clock \<Rightarrow> apod \<times> astros \<times> iss option \<times> feed option \<Rightarrow> js_error + report_output" where
  "report_result rt clk awaited =
     (case awaited of (apod, astros, iss, neo) \<Rightarrow>
        (case group_by_craft Map.empty (people astros) of
           Inl e \<Rightarrow> Inl e
         | Inr grouped \<Rightarrow>
             Inr \<lparr> report_of =
                     \<lparr> report_date = before_T (started clk),
                       astronomyPictureOfTheDay =
                         \<lparr> apod_title = title apod,
                           apod_explanation = take 500 (explanation apod) @ ''...'',
                           apod_url_of = url apod,
                           mediaType = media_type apod \<rparr>,
                       humansInSpace_of = \<lparr> total = number astros, byCraft = grouped \<rparr>,
                       issLocation =
                         (case iss of
                            Some i \<Rightarrow> Position (parseFloat rt (latitude i)) (parseFloat rt (longitude i))
                          | None \<Rightarrow> Unavailable),
                       nearEarthObjects = map_option asteroidSummary neo \<rparr>,
                   report_fetchedAt = finished clk,
                   report_dataSources = [''NASA APOD'', ''NASA NEO'', ''Open-Notify''] \<rparr>))"

text \<open>
  The calls the handler starts, in the order of its array: APOD, astronauts, ISS position
  (before its \<^verbatim>\<open>catch\<close>) and, when \<open>includeAsteroids\<close> is set, the feed from today to three
  days on.
\<close>

record report_calls =
  apod_call :: "string list \<times> apod promise"
  astros_call :: "string list \<times> astros promise"
  iss_call :: "string list \<times> iss promise"
  neo_call :: "(string list \<times> feed promise) option"

definition start_report_calls :: "runtime \<Rightarrow> clock \<Rightarrow> bool \<Rightarrow> report_calls" where
  "start_report_calls rt clk includeAsteroids =
     \<lparr> apod_call = fetchJSON (abort_message rt) (fetch_apod rt) (apod_url rt) 30000,
       astros_call = fetchJSON (abort_message rt) (fetch_astros rt) astros_url 30000,
       iss_call = fetchJSON (abort_message rt) (fetch_iss rt) iss_url 15000,
       neo_call =
         (if includeAsteroids
          then Some (fetchJSON (abort_message rt) (fetch_neo rt)
                       (neo_url rt (before_T (started clk)) (before_T (in_three_days clk))) 30000)
          else None) \<rparr>"

text \<open>
  \<^verbatim>\<open>Promise.all(promises)\<close> and the destructuring of its value. The ISS promise enters with
  its \<^verbatim>\<open>catch\<close>. An array of three leaves \<open>neo\<close> \<^verbatim>\<open>undefined\<close>: the absent fourth promise adds
  neither a delay nor a rejection.
\<close>

definition join_report_calls ::
  "report_calls \<Rightarrow> (apod \<times> astros \<times> iss option \<times> feed option) promise" where
  "join_report_calls calls =
     all_pair (snd (apod_call calls))
       (all_pair (snd (astros_call calls))
          (all_pair (catch_null (snd (iss_call calls)))
             (case neo_call calls of
                None \<Rightarrow> (0, Fulfilled None)
              | Some c \<Rightarrow> and_then (\<lambda>v. Inr (Some v)) (snd c))))"

definition requests_of :: "report_calls \<Rightarrow> string list" where
  "requests_of calls =
     fst (apod_call calls) @ fst (astros_call calls) @ fst (iss_call calls)
       @ (case neo_call calls of None \<Rightarrow> [] | Some c \<Rightarrow> fst c)"

definition report_handler :: "runtime \<Rightarrow> clock \<Rightarrow> bool \<Rightarrow> string list \<times> report_output promise" where
  "report_handler rt clk includeAsteroids =
     (let calls = start_report_calls rt clk includeAsteroids
      in (requests_of calls, and_then (report_result rt clk) (join_report_calls calls)))"

section \<open>The tasks of the report, as the specification speaks of them\<close>

text \<open>A promise with its value forgotten: when it settles, and whether with a rejection.\<close>

fun erase :: "'a promise \<Rightarrow> unit promise" where
  "erase (t, Fulfilled _) = (t, Fulfilled ())"
| "erase (t, Rejected e) = (t, Rejected e)"

text \<open>
  The calls of the report in the order of its array, each with the flag \<open>required\<close>: a
  call is required when the handler attaches no \<^verbatim>\<open>catch\<close> to it, which is every call but
  that for the ISS position.
\<close>

definition task_outcomes :: "report_calls \<Rightarrow> (bool \<times> unit promise) list" where
  "task_outcomes calls =
     [(True, erase (snd (apod_call calls))),
      (True, erase (snd (astros_call calls))),
      (False, erase (snd (iss_call calls)))]
     @ (case neo_call calls of None \<Rightarrow> [] | Some c \<Rightarrow> [(True, erase (snd c))])"

text \<open>
  The specification's flag, in its words: true exactly when some required task has a
  failure for its outcome.
\<close>

definition hasFatalFailure_spec :: "(bool \<times> unit promise) list \<Rightarrow> bool" where
  "hasFatalFailure_spec tasks = list_ex (\<lambda>(required, p). required \<and> is_rejected p) tasks"

text \<open>The latest instant at which one of the tasks settles.\<close>

definition last_settlement :: "(bool \<times> unit promise) list \<Rightarrow> nat" where
  "last_settlement tasks = foldr max (map (\<lambda>(required, p). fst p) tasks) 0"

text \<open>
  A request is still open after \<open>timeout\<close> ms: the network has not answered by then.
\<close>

fun open_after :: "int \<Rightarrow> 'a fetch_behaviour \<Rightarrow> bool" where
  "open_after timeout Hangs = True"
| "open_after timeout (Responds t status body) = (timeout < int t)"
| "open_after timeout (Fails t e) = (timeout < int t)"

section \<open>Sample documents and runs\<close>

text \<open>
  A stand-in for \<^verbatim>\<open>parseFloat\<close> that agrees with it on the two strings the samples use and
  on strings that are not numbers.
\<close>

definition sample_parseFloat :: "string \<Rightarrow> jsnum" where
  "sample_parseFloat s =
     (if s = ''0'' then Fin 0 else if s = ''384400.5'' then Fin 384400.5 else NaN)"

definition sample_neo :: "string \<Rightarrow> bool \<Rightarrow> string option \<Rightarrow> neo" where
  "sample_neo n hazardous miss =
     \<lparr> neo_name = n, neo_id = ''1'', estimated_diameter_min = 0.1, estimated_diameter_max = 0.3,
       is_potentially_hazardous_asteroid = hazardous,
       close_approach_data =
         (case miss of
            None \<Rightarrow> []
          | Some km \<Rightarrow>
              [\<lparr> close_approach_date = ''2024-05-01'', miss_distance_kilometers = km,
                 relative_velocity_kilometers_per_hour = ''0'' \<rparr>]) \<rparr>"

definition sample_apod :: apod where
  "sample_apod =
     \<lparr> title = ''Orion'', date = ''2024-05-01'', explanation = ''A nebula.'',
       url = ''https://apod.nasa.gov/a.jpg'', media_type = ''image'' \<rparr>"

definition sample_astros :: astros where
  "sample_astros =
     \<lparr> number = 2,
       people = [\<lparr> person_name = ''A'', craft = ''ISS'' \<rparr>, \<lparr> person_name = ''B'', craft = ''ISS'' \<rparr>] \<rparr>"

definition sample_iss :: iss where
  "sample_iss = \<lparr> latitude = ''0'', longitude = ''384400.5'' \<rparr>"

definition sample_feed :: feed where
  "sample_feed =
     \<lparr> element_count = 2,
       near_earth_objects =
         [(''2024-05-01'', [sample_neo ''unmeasured'' False None, sample_neo ''grazing'' True (Some ''0'')])] \<rparr>"

text \<open>A runtime in which every upstream answers well, the APOD after 120 ms.\<close>

definition sample_runtime :: runtime where
  "sample_runtime =
     \<lparr> NASA_API_KEY = ''DEMO_KEY'',
       abort_message = ''The operation was aborted.'',
       parseFloat = sample_parseFloat,
       three_days_after = (\<lambda>s. Inr ''2024-05-04T00:00:00.000Z''),
       fetch_apod = (\<lambda>u. Responds 120 200 (Json sample_apod)),
       fetch_astros = (\<lambda>u. Responds 500 200 (Json sample_astros)),
       fetch_iss = (\<lambda>u. Responds 20 200 (Json sample_iss)),
       fetch_neo = (\<lambda>u. Responds 300 200 (Json sample_feed)) \<rparr>"

definition sample_clock :: clock where
  "sample_clock =
     \<lparr> started = ''2024-05-01T10:00:00.000Z'',
       in_three_days = ''2024-05-04T10:00:00.000Z'',
       finished = ''2024-05-01T10:00:00.500Z'' \<rparr>"

section \<open>Properties of the sort\<close>

lemma mset_sort_insert: "mset (sort_insert cmp x ys) = add_mset x (mset ys)"
  by (induction ys) auto

lemma mset_js_sort: "mset (js_sort cmp xs) = mset xs"
  by (induction xs) (auto simp: mset_sort_insert)

lemma set_js_sort: "set (js_sort cmp xs) = set xs"
  by (metis mset_js_sort set_mset_mset)

lemma length_js_sort: "length (js_sort cmp xs) = length xs"
  by (metis mset_js_sort size_mset)

lemma set_sort_insert: "set (sort_insert cmp x ys) = insert x (set ys)"
  by (induction ys) auto

lemma consistentD1: "consistent cmp \<Longrightarrow> positive (cmp a b) \<Longrightarrow> \<not> positive (cmp b a)"
  unfolding consistent_def by blast

lemma consistentD2:
  "consistent cmp \<Longrightarrow> \<not> positive (cmp a b) \<Longrightarrow> \<not> positive (cmp b c) \<Longrightarrow> \<not> positive (cmp a c)"
  unfolding consistent_def by blast

lemma sorted_sort_insert:
  assumes "consistent cmp" "sorted_wrt (\<lambda>a b. \<not> positive (cmp a b)) ys"
  shows "sorted_wrt (\<lambda>a b. \<not> positive (cmp a b)) (sort_insert cmp x ys)"
  using assms(2)
proof (induction ys)
  case Nil
  then show ?case by simp
next
  case (Cons y ys)
  from Cons.prems have tail: "sorted_wrt (\<lambda>a b. \<not> positive (cmp a b)) ys"
    and head: "\<forall>b\<in>set ys. \<not> positive (cmp y b)" by simp_all
  show ?case
  proof (cases "positive (cmp x y)")
    case True
    have "\<not> positive (cmp y x)" using True assms(1) by (rule consistentD1[rotated])
    with head have "\<forall>b\<in>set (sort_insert cmp x ys). \<not> positive (cmp y b)"
      by (simp add: set_sort_insert)
    with True Cons.IH[OF tail] show ?thesis by simp
  next
    case False
    have "\<forall>b\<in>set ys. \<not> positive (cmp x b)"
      using False head consistentD2[OF assms(1)] by blast
    with False Cons.prems show ?thesis by simp
  qed
qed

lemma sorted_js_sort:
  "consistent cmp \<Longrightarrow> sorted_wrt (\<lambda>a b. \<not> positive (cmp a b)) (js_sort cmp xs)"
  by (induction xs) (simp_all add: sorted_sort_insert)

lemma filter_sort_insert:
  assumes "\<And>a b. P a \<Longrightarrow> P b \<Longrightarrow> \<not> positive (cmp a b)"
  shows "filter P (sort_insert cmp x ys) = filter P (x # ys)"
  using assms by (induction ys) auto

lemma filter_js_sort:
  assumes "\<And>a b. P a \<Longrightarrow> P b \<Longrightarrow> \<not> positive (cmp a b)"
  shows "filter P (js_sort cmp xs) = filter P xs"
  using assms by (induction xs) (auto simp: filter_sort_insert)


lemma or_Infinity_cases:
  "or_Infinity v = PInf \<or> or_Infinity v = NInf \<or> (\<exists>d. d \<noteq> 0 \<and> or_Infinity v = Fin d)"
proof (cases v)
  case None then show ?thesis by simp
next
  case (Some n) then show ?thesis by (cases n) auto
qed


lemma consistent_by_missDistance: "consistent by_missDistance"
  unfolding consistent_def by_missDistance_def
proof (intro conjI allI impI)
  fix a b :: asteroid
  assume "positive (js_sub (or_Infinity (missDistance_km a)) (or_Infinity (missDistance_km b)))"
  then show "\<not> positive (js_sub (or_Infinity (missDistance_km b)) (or_Infinity (missDistance_km a)))"
    using or_Infinity_cases[of "missDistance_km a"] or_Infinity_cases[of "missDistance_km b"]
    by auto
next
  fix a b c :: asteroid
  assume "\<not> positive (js_sub (or_Infinity (missDistance_km a)) (or_Infinity (missDistance_km b)))"
    "\<not> positive (js_sub (or_Infinity (missDistance_km b)) (or_Infinity (missDistance_km c)))"
  then show "\<not> positive (js_sub (or_Infinity (missDistance_km a)) (or_Infinity (missDistance_km c)))"
    using or_Infinity_cases[of "missDistance_km a"] or_Infinity_cases[of "missDistance_km b"]
      or_Infinity_cases[of "missDistance_km c"]
    by auto
qed

lemma sorted_sort_asteroids:
  "sorted_wrt (\<lambda>a b. \<not> positive (by_missDistance a b)) (sort_asteroids xs)"
  unfolding sort_asteroids_def by (rule sorted_js_sort[OF consistent_by_missDistance])

lemma after_Infinity:
  assumes "or_Infinity (missDistance_km a) = PInf" "\<not> positive (by_missDistance a b)"
  shows "or_Infinity (missDistance_km b) = PInf"
  using assms or_Infinity_cases[of "missDistance_km b"] by (auto simp: by_missDistance_def)

lemma behind_Infinity:
  assumes "i < j" "j < length xs" "or_Infinity (missDistance_km (sort_asteroids xs ! i)) = PInf"
  shows "or_Infinity (missDistance_km (sort_asteroids xs ! j)) = PInf"
proof -
  have "j < length (sort_asteroids xs)" using assms(2) by (simp add: sort_asteroids_def length_js_sort)
  with assms(1) sorted_sort_asteroids[of xs]
  have "\<not> positive (by_missDistance (sort_asteroids xs ! i) (sort_asteroids xs ! j))"
    by (simp add: sorted_wrt_iff_nth_less)
  with assms(3) show ?thesis by (rule after_Infinity)
qed

lemma missing_behind_proper_distances:
  assumes "i < length xs" "j < length xs"
    and "missDistance_km (sort_asteroids xs ! i) = None"
    and "missDistance_km (sort_asteroids xs ! j) = Some (Fin d)" "d \<noteq> 0"
  shows "j < i"
proof (rule ccontr)
  assume "\<not> j < i"
  moreover from assms(3,4) have "i \<noteq> j" by auto
  ultimately have less: "i < j" by linarith
  have "or_Infinity (missDistance_km (sort_asteroids xs ! i)) = PInf" using assms(3) by simp
  with less assms(2) have "or_Infinity (missDistance_km (sort_asteroids xs ! j)) = PInf"
    by (rule behind_Infinity)
  with assms(4,5) show False by simp
qed

section \<open>The asteroids entrypoint: order and output\<close>

lemma length_filter_js_sort: "length (filter P (js_sort cmp xs)) = length (filter P xs)"
proof -
  have "mset (filter P (js_sort cmp xs)) = mset (filter P xs)"
    by (simp add: mset_js_sort)
  then show ?thesis by (metis size_mset)
qed

text \<open>
  Claim C6 (a record without a miss distance is placed last, as if its distance were
  positive infinity), evaluated on the code: the feed of one day with an object that has no
  close approach, followed by an object whose miss distance is the string \<open>0\<close>. The
  comparator reads the distance zero as absent too, the two entries compare equal, and the
  stable sort leaves the entry without a distance first, ahead of an entry that has one.
\<close>

theorem missing_distance_ahead_of_zero_distance:
  "map name (asteroids (asteroids_result sample_parseFloat sample_feed
      ''2024-05-01'' ''2024-05-04'' ''2024-05-01T10:00:00.500Z'')) = [''unmeasured'', ''grazing'']
   \<and> map missDistance_km (asteroids (asteroids_result sample_parseFloat sample_feed
      ''2024-05-01'' ''2024-05-04'' ''2024-05-01T10:00:00.500Z'')) = [None, Some (Fin 0)]"
  by (simp add: asteroids_result_def Let_def flatten_def sample_feed_def sample_neo_def
      entry_of_def sort_asteroids_def by_missDistance_def sample_parseFloat_def)

text \<open>
  Claim C9: a miss distance of zero is falsy, so the comparator replaces it by positive
  infinity exactly as it replaces a missing one. An entry with the distance zero compares
  like an entry without a distance against every entry, on either side, and in the sorted
  array every entry with a finite distance other than zero stands before it: it is placed
  in the last group, not first.
\<close>

theorem zero_distance_sorts_as_missing:
  assumes "missDistance_km z = Some (Fin 0)"
  shows "or_Infinity (missDistance_km z) = or_Infinity None
    \<and> (missDistance_km m = None \<longrightarrow>
         by_missDistance z a = by_missDistance m a \<and> by_missDistance a z = by_missDistance a m)
    \<and> (\<forall>i j d. i < length xs \<and> j < length xs \<and> sort_asteroids xs ! i = z
          \<and> missDistance_km (sort_asteroids xs ! j) = Some (Fin d) \<and> d \<noteq> 0 \<longrightarrow> j < i)"
proof (intro conjI allI impI)
  show key: "or_Infinity (missDistance_km z) = or_Infinity None" using assms by simp
  { assume "missDistance_km m = None"
    then show "by_missDistance z a = by_missDistance m a" using assms by (simp add: by_missDistance_def)
  }
  { assume "missDistance_km m = None"
    then show "by_missDistance a z = by_missDistance a m" using assms by (simp add: by_missDistance_def)
  }
  fix i j d
  assume h: "i < length xs \<and> j < length xs \<and> sort_asteroids xs ! i = z
          \<and> missDistance_km (sort_asteroids xs ! j) = Some (Fin d) \<and> d \<noteq> 0"
  show "j < i"
  proof (rule ccontr)
    assume "\<not> j < i"
    then consider "i = j" | "i < j" by linarith
    then show False
    proof cases
      case 1
      from h have "sort_asteroids xs ! i = z" and "missDistance_km (sort_asteroids xs ! j) = Some (Fin d)"
        and "d \<noteq> 0" by blast+
      with 1 assms show False by auto
    next
      case 2
      have "or_Infinity (missDistance_km (sort_asteroids xs ! i)) = PInf" using h key by simp
      from behind_Infinity[OF 2 _ this] h
      have "or_Infinity (missDistance_km (sort_asteroids xs ! j)) = PInf" by simp
      with h show False by simp
    qed
  qed
qed

text \<open>
  The theorem at the entries of two objects, the first with the miss distance \<open>0\<close>, the
  second with \<open>384400.5\<close>: the sort moves the first behind the second.
\<close>

theorem zero_distance_sorts_as_missing_witness:
  "missDistance_km (entry_of sample_parseFloat (sample_neo ''grazing'' True (Some ''0''))) = Some (Fin 0)
   \<and> sort_asteroids [entry_of sample_parseFloat (sample_neo ''grazing'' True (Some ''0'')),
                      entry_of sample_parseFloat (sample_neo ''far'' False (Some ''384400.5''))] ! 1
       = entry_of sample_parseFloat (sample_neo ''grazing'' True (Some ''0''))
   \<and> missDistance_km (sort_asteroids [entry_of sample_parseFloat (sample_neo ''grazing'' True (Some ''0'')),
                      entry_of sample_parseFloat (sample_neo ''far'' False (Some ''384400.5''))] ! 0)
       = Some (Fin 384400.5)
   \<and> (0::nat) < 1"
  using zero_distance_sorts_as_missing[of "entry_of sample_parseFloat (sample_neo ''grazing'' True (Some ''0''))"
      "entry_of sample_parseFloat (sample_neo ''unmeasured'' False None)"
      "entry_of sample_parseFloat (sample_neo ''far'' False (Some ''384400.5''))"
      "[entry_of sample_parseFloat (sample_neo ''grazing'' True (Some ''0'')),
        entry_of sample_parseFloat (sample_neo ''far'' False (Some ''384400.5''))]"]
  by (simp add: sample_neo_def entry_of_def sort_asteroids_def by_missDistance_def sample_parseFloat_def)

text \<open>
  Claim C10 (the list returned is the first 20 entries of the sorted array; \<open>totalCount\<close>
  and \<open>hazardousCount\<close> are computed over all fetched asteroids; \<open>closestApproach\<close> is the
  first sorted entry or null), as stated, at a feed that announces five objects and lists
  none: \<open>totalCount\<close> is five although no asteroid was fetched. It is the feed's own
  \<open>element_count\<close>, not a count of the entries.
\<close>

theorem totalCount_not_counted:
  "totalCount (asteroids_result sample_parseFloat \<lparr> element_count = 5, near_earth_objects = [] \<rparr>
      ''2024-05-01'' ''2024-05-04'' ''2024-05-01T10:00:00.500Z'') = 5
   \<and> flatten sample_parseFloat \<lparr> element_count = 5, near_earth_objects = [] \<rparr> = []"
  by (simp add: asteroids_result_def Let_def flatten_def)

text \<open>
  Claim C10, amended: the list returned is the first 20 entries of the sorted array, so it
  has at most 20; \<open>totalCount\<close> is the feed's \<open>element_count\<close> as received, whatever the
  number of entries; \<open>hazardousCount\<close> counts the hazardous ones among all entries, also
  those beyond the first 20; \<open>closestApproach\<close> is the first entry of the sorted array,
  or null when there is none.
\<close>

theorem asteroids_output_shape:
  "asteroids (asteroids_result pf data start end_date now) = take 20 (sort_asteroids (flatten pf data))
   \<and> length (asteroids (asteroids_result pf data start end_date now)) \<le> 20
   \<and> totalCount (asteroids_result pf data start end_date now) = element_count data
   \<and> hazardousCount (asteroids_result pf data start end_date now)
       = length (filter isPotentiallyHazardous (flatten pf data))
   \<and> closestApproach (asteroids_result pf data start end_date now)
       = (case sort_asteroids (flatten pf data) of [] \<Rightarrow> None | a # _ \<Rightarrow> Some a)"
  by (simp add: asteroids_result_def Let_def sort_asteroids_def length_filter_js_sort)

section \<open>Promises\<close>

lemma is_rejected_all_pair: "is_rejected (all_pair p q) = (is_rejected p \<or> is_rejected q)"
  by (induction p q rule: all_pair.induct) simp_all

lemma all_pair_no_later_left: "is_rejected p \<Longrightarrow> fst (all_pair p q) \<le> fst p"
  by (induction p q rule: all_pair.induct) simp_all

lemma all_pair_no_later_right: "is_rejected q \<Longrightarrow> fst (all_pair p q) \<le> fst q"
  by (induction p q rule: all_pair.induct) simp_all

lemma all_pair_waits: "\<not> is_rejected p \<Longrightarrow> \<not> is_rejected q \<Longrightarrow> fst (all_pair p q) = max (fst p) (fst q)"
  by (induction p q rule: all_pair.induct) simp_all

lemma erase_all_pair:
  "is_rejected (all_pair p q) \<Longrightarrow>
     (is_rejected p \<and> erase (all_pair p q) = erase p) \<or> (is_rejected q \<and> erase (all_pair p q) = erase q)"
  by (induction p q rule: all_pair.induct) simp_all

lemma is_rejected_erase: "is_rejected (erase p) = is_rejected p"
  by (induction p rule: erase.induct) simp_all

lemma fst_erase: "fst (erase p) = fst p"
  by (induction p rule: erase.induct) simp_all

lemma erase_erase: "erase (erase p) = erase p"
  by (induction p rule: erase.induct) simp_all

lemma catch_null_fulfils: "\<not> is_rejected (catch_null p)"
  by (induction p rule: catch_null.induct) simp_all

lemma fst_catch_null: "fst (catch_null p) = fst p"
  by (induction p rule: catch_null.induct) simp_all

lemma fst_and_then: "fst (and_then f p) = fst p"
  by (induction f p rule: and_then.induct) simp_all

lemma and_then_rejected: "is_rejected p \<Longrightarrow> is_rejected (and_then f p) \<and> erase (and_then f p) = erase p"
  by (induction f p rule: and_then.induct) simp_all

lemma and_then_Inr: "is_rejected (and_then (\<lambda>v. Inr (g v)) p) = is_rejected p"
  by (cases p; cases "snd p") auto

lemma erase_and_then_Inr: "erase (and_then (\<lambda>v. Inr (g v)) p) = erase p"
  by (cases p; cases "snd p") auto

section \<open>The join of the report's calls\<close>

lemma join_rejected_iff_fatal:
  "is_rejected (join_report_calls calls) \<longleftrightarrow> hasFatalFailure_spec (task_outcomes calls)"
  by (cases "neo_call calls")
     (simp_all add: join_report_calls_def hasFatalFailure_spec_def task_outcomes_def
        is_rejected_all_pair is_rejected_erase catch_null_fulfils and_then_Inr)

lemma join_rejection_is_a_required_one:
  assumes "is_rejected (join_report_calls calls)"
  shows "(True, erase (join_report_calls calls)) \<in> set (task_outcomes calls)"
proof (cases "neo_call calls")
  case None
  let ?c = "all_pair (catch_null (snd (iss_call calls))) (0, Fulfilled (None :: feed option))"
  let ?b = "all_pair (snd (astros_call calls)) ?c"
  have j: "join_report_calls calls = all_pair (snd (apod_call calls)) ?b"
    by (simp add: join_report_calls_def None)
  have nc: "\<not> is_rejected ?c" by (simp add: is_rejected_all_pair catch_null_fulfils)
  from assms erase_all_pair[of "snd (apod_call calls)" ?b] j
  consider "erase (join_report_calls calls) = erase (snd (apod_call calls))"
    | "is_rejected ?b" "erase (join_report_calls calls) = erase ?b" by auto
  then show ?thesis
  proof cases
    case 1
    then show ?thesis by (simp add: task_outcomes_def)
  next
    case 2
    with erase_all_pair[of "snd (astros_call calls)" ?c] nc
    have "erase (join_report_calls calls) = erase (snd (astros_call calls))" by auto
    then show ?thesis by (simp add: task_outcomes_def)
  qed
next
  case (Some n)
  let ?d = "and_then (\<lambda>v. Inr (Some v)) (snd n) :: feed option promise"
  let ?c = "all_pair (catch_null (snd (iss_call calls))) ?d"
  let ?b = "all_pair (snd (astros_call calls)) ?c"
  have j: "join_report_calls calls = all_pair (snd (apod_call calls)) ?b"
    by (simp add: join_report_calls_def Some)
  from assms erase_all_pair[of "snd (apod_call calls)" ?b] j
  consider "erase (join_report_calls calls) = erase (snd (apod_call calls))"
    | "is_rejected ?b" "erase (join_report_calls calls) = erase ?b" by auto
  then show ?thesis
  proof cases
    case 1
    then show ?thesis by (simp add: task_outcomes_def)
  next
    case 2
    with erase_all_pair[of "snd (astros_call calls)" ?c]
    consider "erase (join_report_calls calls) = erase (snd (astros_call calls))"
      | "is_rejected ?c" "erase (join_report_calls calls) = erase ?c" by auto
    then show ?thesis
    proof cases
      case 1
      then show ?thesis by (simp add: task_outcomes_def)
    next
      case 2
      with erase_all_pair[of "catch_null (snd (iss_call calls))" ?d] catch_null_fulfils[of "snd (iss_call calls)"]
      have "erase (join_report_calls calls) = erase ?d" by auto
      then show ?thesis by (simp add: task_outcomes_def Some erase_and_then_Inr)
    qed
  qed
qed

lemma required_tasks:
  "(True, p) \<in> set (task_outcomes calls) \<longleftrightarrow>
     p = erase (snd (apod_call calls)) \<or> p = erase (snd (astros_call calls))
     \<or> (\<exists>c. neo_call calls = Some c \<and> p = erase (snd c))"
  by (cases "neo_call calls") (auto simp: task_outcomes_def)

lemma join_no_later_than_required_rejection:
  assumes "(True, p) \<in> set (task_outcomes calls)" "is_rejected p"
  shows "fst (join_report_calls calls) \<le> fst p"
proof -
  obtain d :: "feed option promise" where
    d: "d = (case neo_call calls of None \<Rightarrow> (0, Fulfilled None)
              | Some c \<Rightarrow> and_then (\<lambda>v. Inr (Some v)) (snd c))" by simp
  let ?c = "all_pair (catch_null (snd (iss_call calls))) d"
  let ?b = "all_pair (snd (astros_call calls)) ?c"
  have j: "join_report_calls calls = all_pair (snd (apod_call calls)) ?b"
    by (simp add: join_report_calls_def d)
  from assms(1) have "p = erase (snd (apod_call calls)) \<or> p = erase (snd (astros_call calls))
     \<or> (\<exists>c. neo_call calls = Some c \<and> p = erase (snd c))" by (simp only: required_tasks)
  then consider "p = erase (snd (apod_call calls))" | "p = erase (snd (astros_call calls))"
    | c where "neo_call calls = Some c" "p = erase (snd c)"
    by blast
  then show ?thesis
  proof cases
    case 1
    with assms(2) show ?thesis
      by (simp add: j is_rejected_erase fst_erase all_pair_no_later_left)
  next
    case 2
    with assms(2) have r: "is_rejected (snd (astros_call calls))" by (simp add: is_rejected_erase)
    then have "is_rejected ?b" by (simp add: is_rejected_all_pair)
    then have "fst (join_report_calls calls) \<le> fst ?b" unfolding j by (rule all_pair_no_later_right)
    also have "fst ?b \<le> fst (snd (astros_call calls))" using r by (rule all_pair_no_later_left)
    finally show ?thesis using 2 by (simp add: fst_erase)
  next
    case 3
    with assms(2) have r: "is_rejected d" by (simp add: d is_rejected_erase and_then_Inr)
    then have rc: "is_rejected ?c" by (simp add: is_rejected_all_pair)
    then have "is_rejected ?b" by (simp add: is_rejected_all_pair)
    then have "fst (join_report_calls calls) \<le> fst ?b" unfolding j by (rule all_pair_no_later_right)
    also have "fst ?b \<le> fst ?c" using rc by (rule all_pair_no_later_right)
    also have "fst ?c \<le> fst d" using r by (rule all_pair_no_later_right)
    finally show ?thesis using 3 by (simp add: d fst_erase fst_and_then)
  qed
qed

lemma fulfilled_form: "\<not> is_rejected p \<Longrightarrow> \<exists>t v. p = (t, Fulfilled v)"
  by (cases p; cases "snd p") auto

lemma join_waits_for_all:
  assumes "\<not> hasFatalFailure_spec (task_outcomes calls)"
  shows "\<exists>ta a ts s n.
           snd (apod_call calls) = (ta, Fulfilled a) \<and> snd (astros_call calls) = (ts, Fulfilled s)
           \<and> join_report_calls calls =
           (last_settlement (task_outcomes calls),
            Fulfilled (a, s, (case snd (snd (iss_call calls)) of Fulfilled i \<Rightarrow> Some i | Rejected e \<Rightarrow> None), n))"
proof -
  from assms have na: "\<not> is_rejected (snd (apod_call calls))" and ns: "\<not> is_rejected (snd (astros_call calls))"
    by (simp_all add: hasFatalFailure_spec_def task_outcomes_def is_rejected_erase)
  obtain ta a where a: "snd (apod_call calls) = (ta, Fulfilled a)"
    using fulfilled_form[OF na] by blast
  obtain ts s where s: "snd (astros_call calls) = (ts, Fulfilled s)"
    using fulfilled_form[OF ns] by blast
  obtain ti ri where i: "snd (iss_call calls) = (ti, ri)" by (cases "snd (iss_call calls)")
  show ?thesis
  proof (cases "neo_call calls")
    case None
    show ?thesis
      by (cases ri) (simp_all add: join_report_calls_def task_outcomes_def last_settlement_def a s i None)
  next
    case (Some c)
    with assms have nn: "\<not> is_rejected (snd c)"
      by (simp add: hasFatalFailure_spec_def task_outcomes_def is_rejected_erase)
    obtain tn n where n: "snd c = (tn, Fulfilled n)" using fulfilled_form[OF nn] by blast
    show ?thesis
      by (cases ri) (simp_all add: join_report_calls_def task_outcomes_def last_settlement_def a s i n Some)
  qed
qed

lemma join_with_iss_rejected:
  assumes "snd (iss_call calls) = (ti, Rejected e)"
    and "snd (apod_call calls) = (ta, Fulfilled a)"
    and "snd (astros_call calls) = (ts, Fulfilled s)"
    and "map_option snd (neo_call calls) = map_option (\<lambda>(tn, f). (tn, Fulfilled f)) nv"
  shows "join_report_calls calls =
           (max ta (max ts (max ti (case nv of None \<Rightarrow> 0 | Some (tn, f) \<Rightarrow> tn))),
            Fulfilled (a, s, None, map_option snd nv))"
proof (cases nv)
  case None
  with assms(4) have "neo_call calls = None" by simp
  with assms(1-3) None show ?thesis by (simp add: join_report_calls_def)
next
  case (Some v)
  obtain tn f where v: "v = (tn, f)" by (cases v)
  from assms(4) Some v obtain c where "neo_call calls = Some c" and "snd c = (tn, Fulfilled f)"
    by (cases "neo_call calls") auto
  with assms(1-3) Some v show ?thesis by (simp add: join_report_calls_def)
qed

lemmas run_defs = report_handler_def start_report_calls_def join_report_calls_def requests_of_def
  fetchJSON_def aborted_def timer_delay_def Error_def ok_def task_outcomes_def hasFatalFailure_spec_def
  last_settlement_def sample_runtime_def sample_clock_def

text \<open>
  Claim C3: \<open>hasFatalFailure\<close> is true exactly when at least one required task has a
  failure for its outcome, false when every failure is on a task that is not required, and
  a function of the outcomes and the flags alone. The code keeps no such field: a fatal
  failure shows as the rejection of \<^verbatim>\<open>Promise.all\<close>. That rejection occurs exactly when the
  specification's flag, computed from the outcomes of the report's calls and from which of
  them carry no \<^verbatim>\<open>catch\<close>, is true.
\<close>

theorem report_fails_iff_required_task_fails:
  "is_rejected (join_report_calls calls) = hasFatalFailure_spec (task_outcomes calls)"
  by (rule join_rejected_iff_fatal)

text \<open>
  The theorem at two runs with the feed included: the astronauts answer with status 503
  and the join is rejected; only the ISS request fails and the join is fulfilled.
\<close>

theorem report_fails_iff_required_task_fails_witness:
  "is_rejected (join_report_calls (start_report_calls
      (sample_runtime\<lparr> fetch_astros := (\<lambda>u. Responds 80 503 (Json sample_astros)) \<rparr>) sample_clock True))
   \<and> hasFatalFailure_spec (task_outcomes (start_report_calls
      (sample_runtime\<lparr> fetch_astros := (\<lambda>u. Responds 80 503 (Json sample_astros)) \<rparr>) sample_clock True))
   \<and> \<not> is_rejected (join_report_calls (start_report_calls
      (sample_runtime\<lparr> fetch_iss := (\<lambda>u. Fails 5 (JsError ''TypeError'' ''fetch failed'')) \<rparr>) sample_clock True))"
  using report_fails_iff_required_task_fails
      [of "start_report_calls
      (sample_runtime\<lparr> fetch_astros := (\<lambda>u. Responds 80 503 (Json sample_astros)) \<rparr>) sample_clock True"]
    report_fails_iff_required_task_fails
      [of "start_report_calls
      (sample_runtime\<lparr> fetch_iss := (\<lambda>u. Fails 5 (JsError ''TypeError'' ''fetch failed'')) \<rparr>) sample_clock True"]
  by (simp add: run_defs)

text \<open>
  Claim C2 (errors of single tasks never leave the run as exceptions, each is kept as a
  failure in the result, and the run returns only once every task has settled), as stated,
  at a run without the feed in which the APOD request fails after 10 ms and the astronauts
  answer after 500 ms: the handler's promise is rejected with the APOD error, and at 10 ms,
  long before the astronauts' call settles.
\<close>

theorem required_failure_rejects_the_report:
  "snd (report_handler (sample_runtime\<lparr> fetch_apod := (\<lambda>u. Fails 10 (JsError ''TypeError'' ''fetch failed'')) \<rparr>)
          sample_clock False)
     = (10, Rejected (JsError ''Error'' ''Fetch failed: fetch failed''))
   \<and> snd (astros_call (start_report_calls
          (sample_runtime\<lparr> fetch_apod := (\<lambda>u. Fails 10 (JsError ''TypeError'' ''fetch failed'')) \<rparr>)
          sample_clock False))
     = (500, Fulfilled sample_astros)"
  by (simp add: run_defs)

text \<open>
  Claim C2, amended: only the error of the ISS call is kept, as \<^verbatim>\<open>null\<close>. A rejection
  of a required call (APOD, astronauts, feed) rejects the handler's promise, no later than
  that rejection, and with the rejection of one of the required calls; the handler does
  not wait for the remaining calls. When no required call is rejected, the handler goes on
  only at the instant the last of all calls has settled, the ISS call included, and the
  value awaited for the ISS is \<^verbatim>\<open>null\<close> exactly when its call was rejected.
\<close>

theorem report_rejects_on_first_required_failure:
  "(\<forall>p. (True, p) \<in> set (task_outcomes (start_report_calls rt clk inc)) \<and> is_rejected p \<longrightarrow>
       is_rejected (snd (report_handler rt clk inc))
       \<and> fst (snd (report_handler rt clk inc)) \<le> fst p
       \<and> (True, erase (snd (report_handler rt clk inc)))
           \<in> set (task_outcomes (start_report_calls rt clk inc)))
   \<and> (\<not> hasFatalFailure_spec (task_outcomes (start_report_calls rt clk inc)) \<longrightarrow>
       fst (snd (report_handler rt clk inc))
         = last_settlement (task_outcomes (start_report_calls rt clk inc))
       \<and> (\<exists>a s n. join_report_calls (start_report_calls rt clk inc)
            = (last_settlement (task_outcomes (start_report_calls rt clk inc)),
               Fulfilled (a, s,
                 (case snd (snd (iss_call (start_report_calls rt clk inc))) of
                    Fulfilled i \<Rightarrow> Some i | Rejected e \<Rightarrow> None), n))))"
proof -
  let ?calls = "start_report_calls rt clk inc"
  have h: "snd (report_handler rt clk inc) = and_then (report_result rt clk) (join_report_calls ?calls)"
    by (simp add: report_handler_def Let_def)
  have first: "is_rejected (snd (report_handler rt clk inc))
       \<and> fst (snd (report_handler rt clk inc)) \<le> fst p
       \<and> (True, erase (snd (report_handler rt clk inc))) \<in> set (task_outcomes ?calls)"
    if p: "(True, p) \<in> set (task_outcomes ?calls) \<and> is_rejected p" for p
  proof -
    from p have "hasFatalFailure_spec (task_outcomes ?calls)"
      unfolding hasFatalFailure_spec_def list_ex_iff by blast
    then have r: "is_rejected (join_report_calls ?calls)"
      by (simp add: join_rejected_iff_fatal)
    from p have "fst (join_report_calls ?calls) \<le> fst p"
      using join_no_later_than_required_rejection by blast
    with and_then_rejected[OF r, of "report_result rt clk"] join_rejection_is_a_required_one[OF r]
    show ?thesis by (simp add: h fst_and_then)
  qed
  have second: "fst (snd (report_handler rt clk inc)) = last_settlement (task_outcomes ?calls)
       \<and> (\<exists>a s n. join_report_calls ?calls
            = (last_settlement (task_outcomes ?calls),
               Fulfilled (a, s,
                 (case snd (snd (iss_call ?calls)) of Fulfilled i \<Rightarrow> Some i | Rejected e \<Rightarrow> None), n)))"
    if n: "\<not> hasFatalFailure_spec (task_outcomes ?calls)"
  proof -
    from join_waits_for_all[OF n] obtain a s n where
      j: "join_report_calls ?calls = (last_settlement (task_outcomes ?calls),
               Fulfilled (a, s,
                 (case snd (snd (iss_call ?calls)) of Fulfilled i \<Rightarrow> Some i | Rejected e \<Rightarrow> None), n))"
      by blast
    have "fst (snd (report_handler rt clk inc)) = fst (join_report_calls ?calls)"
      by (simp add: h fst_and_then)
    with j show ?thesis by simp
  qed
  from first second show ?thesis by blast
qed

text \<open>
  The theorem at the run of the counterexample, and at a run with the feed in which the
  ISS request never answers: the handler goes on at 15000 ms, when the ISS call is aborted.
\<close>

theorem report_rejects_on_first_required_failure_witness:
  "(True, (10, Rejected (JsError ''Error'' ''Fetch failed: fetch failed'')))
      \<in> set (task_outcomes (start_report_calls
            (sample_runtime\<lparr> fetch_apod := (\<lambda>u. Fails 10 (JsError ''TypeError'' ''fetch failed'')) \<rparr>)
            sample_clock False))
   \<and> is_rejected (snd (report_handler
            (sample_runtime\<lparr> fetch_apod := (\<lambda>u. Fails 10 (JsError ''TypeError'' ''fetch failed'')) \<rparr>)
            sample_clock False))
   \<and> fst (snd (report_handler
            (sample_runtime\<lparr> fetch_apod := (\<lambda>u. Fails 10 (JsError ''TypeError'' ''fetch failed'')) \<rparr>)
            sample_clock False)) \<le> 10
   \<and> \<not> hasFatalFailure_spec (task_outcomes (start_report_calls
            (sample_runtime\<lparr> fetch_iss := (\<lambda>u. Hangs) \<rparr>) sample_clock True))
   \<and> fst (snd (report_handler (sample_runtime\<lparr> fetch_iss := (\<lambda>u. Hangs) \<rparr>) sample_clock True))
       = 15000"
  using report_rejects_on_first_required_failure
      [of "sample_runtime\<lparr> fetch_apod := (\<lambda>u. Fails 10 (JsError ''TypeError'' ''fetch failed'')) \<rparr>"
          sample_clock False]
    report_rejects_on_first_required_failure
      [of "sample_runtime\<lparr> fetch_iss := (\<lambda>u. Hangs) \<rparr>" sample_clock True]
  by (simp add: run_defs)

lemma group_by_craft_plain:
  "list_all (\<lambda>p. craft p \<notin> set Object_prototype_keys) ps \<Longrightarrow>
     group_by_craft m ps =
       Inr (\<lambda>c. if filter (\<lambda>p. craft p = c) ps = [] then m c
                else Some ((case m c of None \<Rightarrow> [] | Some ns \<Rightarrow> ns)
                           @ map person_name (filter (\<lambda>p. craft p = c) ps)))"
proof (induction ps arbitrary: m)
  case Nil
  then show ?case by simp
next
  case (Cons p ps)
  then have plain: "craft p \<notin> set Object_prototype_keys"
    and rest: "list_all (\<lambda>p. craft p \<notin> set Object_prototype_keys) ps" by simp_all
  let ?m = "m(craft p \<mapsto> (case m (craft p) of None \<Rightarrow> [] | Some ns \<Rightarrow> ns) @ [person_name p])"
  have "group_by_craft m (p # ps) = group_by_craft ?m ps"
    using plain by simp
  also have "\<dots> = Inr (\<lambda>c. if filter (\<lambda>p. craft p = c) ps = [] then ?m c
                else Some ((case ?m c of None \<Rightarrow> [] | Some ns \<Rightarrow> ns)
                           @ map person_name (filter (\<lambda>p. craft p = c) ps)))"
    by (rule Cons.IH[OF rest])
  also have "(\<lambda>c. if filter (\<lambda>p. craft p = c) ps = [] then ?m c
                else Some ((case ?m c of None \<Rightarrow> [] | Some ns \<Rightarrow> ns)
                           @ map person_name (filter (\<lambda>p. craft p = c) ps)))
      = (\<lambda>c. if filter (\<lambda>q. craft q = c) (p # ps) = [] then m c
                else Some ((case m c of None \<Rightarrow> [] | Some ns \<Rightarrow> ns)
                           @ map person_name (filter (\<lambda>q. craft q = c) (p # ps))))"
  proof (rule ext)
    fix c
    show "(if filter (\<lambda>p. craft p = c) ps = [] then ?m c
                else Some ((case ?m c of None \<Rightarrow> [] | Some ns \<Rightarrow> ns)
                           @ map person_name (filter (\<lambda>p. craft p = c) ps)))
      = (if filter (\<lambda>q. craft q = c) (p # ps) = [] then m c
                else Some ((case m c of None \<Rightarrow> [] | Some ns \<Rightarrow> ns)
                           @ map person_name (filter (\<lambda>q. craft q = c) (p # ps))))"
      by (cases "craft p = c") auto
  qed
  finally show ?case .
qed

lemma group_by_craft_empty:
  assumes "list_all (\<lambda>p. craft p \<notin> set Object_prototype_keys) ps"
  shows "group_by_craft Map.empty ps =
       Inr (\<lambda>c. if filter (\<lambda>p. craft p = c) ps = [] then None
                else Some (map person_name (filter (\<lambda>p. craft p = c) ps)))"
  unfolding group_by_craft_plain[OF assms] by (auto simp: fun_eq_iff)

text \<open>
  Claim C7: in the report, a failure of the ISS call is not fatal. When the other calls
  succeed (and no craft name makes the grouping throw), the report is produced, at the
  instant the last call settles, from the documents of the other calls: the date of the
  run, the picture of the day with its explanation cut to 500 characters, the astronauts
  counted and grouped by craft in the order of the document, the summary of the feed when
  it was asked for, and \<^verbatim>\<open>'unavailable'\<close> for the ISS location. A failure of the APOD call or
  of the astronauts' call rejects the whole report.
\<close>

theorem iss_failure_is_not_fatal:
  "(\<forall>ti e ta a ts s nv.
       snd (iss_call (start_report_calls rt clk inc)) = (ti, Rejected e)
       \<and> snd (apod_call (start_report_calls rt clk inc)) = (ta, Fulfilled a)
       \<and> snd (astros_call (start_report_calls rt clk inc)) = (ts, Fulfilled s)
       \<and> map_option snd (neo_call (start_report_calls rt clk inc))
           = map_option (\<lambda>(tn, f). (tn, Fulfilled f)) nv
       \<and> list_all (\<lambda>p. craft p \<notin> set Object_prototype_keys) (people s)
       \<longrightarrow>
       snd (report_handler rt clk inc)
         = (max ta (max ts (max ti (case nv of None \<Rightarrow> 0 | Some (tn, f) \<Rightarrow> tn))),
            Fulfilled
              \<lparr> report_of =
                  \<lparr> report_date = before_T (started clk),
                    astronomyPictureOfTheDay =
                      \<lparr> apod_title = title a,
                        apod_explanation = take 500 (explanation a) @ ''...'',
                        apod_url_of = url a,
                        mediaType = media_type a \<rparr>,
                    humansInSpace_of =
                      \<lparr> total = number s,
                        byCraft =
                          (\<lambda>c. if filter (\<lambda>p. craft p = c) (people s) = [] then None
                               else Some (map person_name (filter (\<lambda>p. craft p = c) (people s)))) \<rparr>,
                    issLocation = Unavailable,
                    nearEarthObjects =
                      map_option
                        (\<lambda>(tn, f).
                           \<lparr> totalTracked = element_count f,
                             hazardousObjects =
                               length (filter is_potentially_hazardous_asteroid
                                         (concat (map snd (near_earth_objects f)))),
                             hazardousList =
                               take 5
                                 (map (\<lambda>n. \<lparr> hazard_name = neo_name n,
                                              diameter_km_max = estimated_diameter_max n,
                                              hazard_approachDate =
                                                (case close_approach_data n of
                                                   [] \<Rightarrow> None
                                                 | c # _ \<Rightarrow> Some (close_approach_date c)) \<rparr>)
                                    (filter is_potentially_hazardous_asteroid
                                       (concat (map snd (near_earth_objects f))))) \<rparr>)
                        nv \<rparr>,
                report_fetchedAt = finished clk,
                report_dataSources = [''NASA APOD'', ''NASA NEO'', ''Open-Notify''] \<rparr>))
   \<and> (is_rejected (snd (apod_call (start_report_calls rt clk inc)))
        \<or> is_rejected (snd (astros_call (start_report_calls rt clk inc)))
       \<longrightarrow> is_rejected (snd (report_handler rt clk inc)))"
proof -
  let ?calls = "start_report_calls rt clk inc"
  have h: "snd (report_handler rt clk inc) = and_then (report_result rt clk) (join_report_calls ?calls)"
    by (simp add: report_handler_def Let_def)
  have summary: "map_option asteroidSummary (map_option snd nv)
      = map_option
          (\<lambda>(tn, f).
             \<lparr> totalTracked = element_count f,
               hazardousObjects =
                 length (filter is_potentially_hazardous_asteroid
                           (concat (map snd (near_earth_objects f)))),
               hazardousList =
                 take 5
                   (map (\<lambda>n. \<lparr> hazard_name = neo_name n,
                                diameter_km_max = estimated_diameter_max n,
                                hazard_approachDate =
                                  (case close_approach_data n of
                                     [] \<Rightarrow> None
                                   | c # _ \<Rightarrow> Some (close_approach_date c)) \<rparr>)
                      (filter is_potentially_hazardous_asteroid
                         (concat (map snd (near_earth_objects f))))) \<rparr>)
          nv" for nv :: "(nat \<times> feed) option"
  proof (cases nv)
    case None
    then show ?thesis by simp
  next
    case (Some v)
    obtain tn f where "v = (tn, f)" by (cases v)
    with Some have "hazard_of = (\<lambda>n. \<lparr> hazard_name = neo_name n,
                                diameter_km_max = estimated_diameter_max n,
                                hazard_approachDate =
                                  (case close_approach_data n of
                                     [] \<Rightarrow> None
                                   | c # _ \<Rightarrow> Some (close_approach_date c)) \<rparr>)"
      by (simp add: fun_eq_iff hazard_of_def)
    with Some \<open>v = (tn, f)\<close> show ?thesis
      by (simp add: asteroidSummary_def Let_def length_map)
  qed
  have degraded: "snd (report_handler rt clk inc)
         = (max ta (max ts (max ti (case nv of None \<Rightarrow> 0 | Some (tn, f) \<Rightarrow> tn))),
            Fulfilled
              \<lparr> report_of =
                  \<lparr> report_date = before_T (started clk),
                    astronomyPictureOfTheDay =
                      \<lparr> apod_title = title a,
                        apod_explanation = take 500 (explanation a) @ ''...'',
                        apod_url_of = url a,
                        mediaType = media_type a \<rparr>,
                    humansInSpace_of =
                      \<lparr> total = number s,
                        byCraft =
                          (\<lambda>c. if filter (\<lambda>p. craft p = c) (people s) = [] then None
                               else Some (map person_name (filter (\<lambda>p. craft p = c) (people s)))) \<rparr>,
                    issLocation = Unavailable,
                    nearEarthObjects =
                      map_option
                        (\<lambda>(tn, f).
                           \<lparr> totalTracked = element_count f,
                             hazardousObjects =
                               length (filter is_potentially_hazardous_asteroid
                                         (concat (map snd (near_earth_objects f)))),
                             hazardousList =
                               take 5
                                 (map (\<lambda>n. \<lparr> hazard_name = neo_name n,
                                              diameter_km_max = estimated_diameter_max n,
                                              hazard_approachDate =
                                                (case close_approach_data n of
                                                   [] \<Rightarrow> None
                                                 | c # _ \<Rightarrow> Some (close_approach_date c)) \<rparr>)
                                    (filter is_potentially_hazardous_asteroid
                                       (concat (map snd (near_earth_objects f))))) \<rparr>)
                        nv \<rparr>,
                report_fetchedAt = finished clk,
                report_dataSources = [''NASA APOD'', ''NASA NEO'', ''Open-Notify''] \<rparr>)"
    if iss: "snd (iss_call ?calls) = (ti, Rejected e)"
      and apod: "snd (apod_call ?calls) = (ta, Fulfilled a)"
      and astros: "snd (astros_call ?calls) = (ts, Fulfilled s)"
      and neo: "map_option snd (neo_call ?calls) = map_option (\<lambda>(tn, f). (tn, Fulfilled f)) nv"
      and plain: "list_all (\<lambda>p. craft p \<notin> set Object_prototype_keys) (people s)"
    for ti e ta a ts s nv
  proof -
    note j = join_with_iss_rejected[OF iss apod astros neo]
    note g = group_by_craft_empty[OF plain]
    show ?thesis
      by (simp add: h j report_result_def g summary del: map_option_eq_Some)
  qed
  have fatal: "is_rejected (snd (report_handler rt clk inc))"
    if "is_rejected (snd (apod_call ?calls)) \<or> is_rejected (snd (astros_call ?calls))"
  proof -
    from that have "hasFatalFailure_spec (task_outcomes ?calls)"
      by (auto simp: hasFatalFailure_spec_def task_outcomes_def is_rejected_erase)
    then have "is_rejected (join_report_calls ?calls)"
      by (simp add: join_rejected_iff_fatal)
    from and_then_rejected[OF this, of "report_result rt clk"] show ?thesis by (simp add: h)
  qed
  show ?thesis
  proof (intro conjI allI impI)
    fix ti e ta a ts s nv
    assume hyp: "snd (iss_call ?calls) = (ti, Rejected e)
       \<and> snd (apod_call ?calls) = (ta, Fulfilled a)
       \<and> snd (astros_call ?calls) = (ts, Fulfilled s)
       \<and> map_option snd (neo_call ?calls) = map_option (\<lambda>(tn, f). (tn, Fulfilled f)) nv
       \<and> list_all (\<lambda>p. craft p \<notin> set Object_prototype_keys) (people s)"
    show "snd (report_handler rt clk inc)
         = (max ta (max ts (max ti (case nv of None \<Rightarrow> 0 | Some (tn, f) \<Rightarrow> tn))),
            Fulfilled
              \<lparr> report_of =
                  \<lparr> report_date = before_T (started clk),
                    astronomyPictureOfTheDay =
                      \<lparr> apod_title = title a,
                        apod_explanation = take 500 (explanation a) @ ''...'',
                        apod_url_of = url a,
                        mediaType = media_type a \<rparr>,
                    humansInSpace_of =
                      \<lparr> total = number s,
                        byCraft =
                          (\<lambda>c. if filter (\<lambda>p. craft p = c) (people s) = [] then None
                               else Some (map person_name (filter (\<lambda>p. craft p = c) (people s)))) \<rparr>,
                    issLocation = Unavailable,
                    nearEarthObjects =
                      map_option
                        (\<lambda>(tn, f).
                           \<lparr> totalTracked = element_count f,
                             hazardousObjects =
                               length (filter is_potentially_hazardous_asteroid
                                         (concat (map snd (near_earth_objects f)))),
                             hazardousList =
                               take 5
                                 (map (\<lambda>n. \<lparr> hazard_name = neo_name n,
                                              diameter_km_max = estimated_diameter_max n,
                                              hazard_approachDate =
                                                (case close_approach_data n of
                                                   [] \<Rightarrow> None
                                                 | c # _ \<Rightarrow> Some (close_approach_date c)) \<rparr>)
                                    (filter is_potentially_hazardous_asteroid
                                       (concat (map snd (near_earth_objects f))))) \<rparr>)
                        nv \<rparr>,
                report_fetchedAt = finished clk,
                report_dataSources = [''NASA APOD'', ''NASA NEO'', ''Open-Notify''] \<rparr>)"
      using hyp by (intro degraded) blast+
  next
    assume "is_rejected (snd (apod_call ?calls)) \<or> is_rejected (snd (astros_call ?calls))"
    then show "is_rejected (snd (report_handler rt clk inc))" by (rule fatal)
  qed
qed

text \<open>
  The theorem at a run with the feed in which only the ISS request fails, after 5 ms: the
  report is there after 500 ms with the picture's title, both astronauts under their
  craft, the one hazardous object of the feed and no ISS location. And at a run in which
  the astronauts answer with status 503: the report is rejected.
\<close>

theorem iss_failure_is_not_fatal_witness:
  "snd (iss_call (start_report_calls
       (sample_runtime\<lparr> fetch_iss := (\<lambda>u. Fails 5 (JsError ''TypeError'' ''fetch failed'')) \<rparr>) sample_clock True))
     = (5, Rejected (JsError ''Error'' ''Fetch failed: fetch failed''))
   \<and> (\<exists>out. snd (report_handler
         (sample_runtime\<lparr> fetch_iss := (\<lambda>u. Fails 5 (JsError ''TypeError'' ''fetch failed'')) \<rparr>) sample_clock True)
         = (500, Fulfilled out)
       \<and> issLocation (report_of out) = Unavailable
       \<and> apod_title (astronomyPictureOfTheDay (report_of out)) = ''Orion''
       \<and> total (humansInSpace_of (report_of out)) = 2
       \<and> byCraft (humansInSpace_of (report_of out)) ''ISS'' = Some [''A'', ''B'']
       \<and> map_option hazardousObjects (nearEarthObjects (report_of out)) = Some 1)
   \<and> is_rejected (snd (report_handler
         (sample_runtime\<lparr> fetch_astros := (\<lambda>u. Responds 80 503 (Json sample_astros)) \<rparr>) sample_clock True))"
proof -
  let ?rt = "sample_runtime\<lparr> fetch_iss := (\<lambda>u. Fails 5 (JsError ''TypeError'' ''fetch failed'')) \<rparr>"
  let ?rt' = "sample_runtime\<lparr> fetch_astros := (\<lambda>u. Responds 80 503 (Json sample_astros)) \<rparr>"
  have iss: "snd (iss_call (start_report_calls ?rt sample_clock True))
     = (5, Rejected (JsError ''Error'' ''Fetch failed: fetch failed''))"
    by (simp add: run_defs)
  have hyps: "snd (iss_call (start_report_calls ?rt sample_clock True))
        = (5, Rejected (JsError ''Error'' ''Fetch failed: fetch failed''))
     \<and> snd (apod_call (start_report_calls ?rt sample_clock True)) = (120, Fulfilled sample_apod)
     \<and> snd (astros_call (start_report_calls ?rt sample_clock True)) = (500, Fulfilled sample_astros)
     \<and> map_option snd (neo_call (start_report_calls ?rt sample_clock True))
         = map_option (\<lambda>(tn, f). (tn, Fulfilled f)) (Some (300, sample_feed))
     \<and> list_all (\<lambda>p. craft p \<notin> set Object_prototype_keys) (people sample_astros)"
    by (simp add: run_defs sample_astros_def Object_prototype_keys_def)
  note produced = iss_failure_is_not_fatal[of ?rt sample_clock True, THEN conjunct1, rule_format, OF hyps]
  have "\<exists>out. snd (report_handler ?rt sample_clock True) = (500, Fulfilled out)
       \<and> issLocation (report_of out) = Unavailable
       \<and> apod_title (astronomyPictureOfTheDay (report_of out)) = ''Orion''
       \<and> total (humansInSpace_of (report_of out)) = 2
       \<and> byCraft (humansInSpace_of (report_of out)) ''ISS'' = Some [''A'', ''B'']
       \<and> map_option hazardousObjects (nearEarthObjects (report_of out)) = Some 1"
    unfolding produced
    by (simp add: sample_apod_def sample_astros_def sample_feed_def sample_neo_def)
  moreover have "is_rejected (snd (report_handler ?rt' sample_clock True))"
    using iss_failure_is_not_fatal[of ?rt' sample_clock True, THEN conjunct2]
    by (simp add: run_defs)
  ultimately show ?thesis using iss by blast
qed

section \<open>\<^verbatim>\<open>fetchJSON\<close>: timeouts and validation\<close>




text \<open>
  Claim C5 (a task that does not resolve within its timeout is cancelled when the timeout
  has elapsed and its outcome is a failure of kind \<^verbatim>\<open>TimeoutError\<close> with the message
  \<^verbatim>\<open>timed out after Nms\<close>), as stated, at an ISS request that never answers: the call is
  rejected at 15000 ms, but with a plain \<^verbatim>\<open>Error\<close> whose message is \<^verbatim>\<open>Fetch failed:\<close> and
  the abort message of the runtime.
\<close>

theorem timeout_is_a_fetch_failure:
  "snd (fetchJSON ''The operation was aborted.'' (\<lambda>u. Hangs :: iss fetch_behaviour) iss_url 15000)
     = (15000, Rejected (JsError ''Error'' ''Fetch failed: The operation was aborted.''))
   \<and> snd (fetchJSON ''The operation was aborted.'' (\<lambda>u. Hangs :: iss fetch_behaviour) iss_url 15000)
     \<noteq> (15000, Rejected (JsError ''TimeoutError'' ''timed out after 15000ms''))"
  by (simp add: fetchJSON_def aborted_def timer_delay_def Error_def)

lemma open_call_is_aborted:
  assumes "open_after (int (timer_delay timeout)) (fetch u)"
  shows "snd (fetchJSON msg fetch u timeout)
        = (timer_delay timeout, Rejected (JsError ''Error'' (''Fetch failed: '' @ msg)))"
  using assms by (cases "fetch u") (simp_all add: fetchJSON_def aborted_def Error_def)

text \<open>
  Claim C5, amended: a call whose request is still open when its timer fires (after the
  timeout; at once for a timeout of zero or less; after 1 ms for a timeout above
  2147483647 ms) is aborted at that instant, and is rejected with an \<^verbatim>\<open>Error\<close> whose message
  is \<^verbatim>\<open>Fetch failed:\<close> followed by the runtime's abort message; the timeout is not named
  in it. In the report, when it is the ISS request that is still open after its 15000 ms
  and the other calls are fulfilled, the handler awaits exactly the documents of the other
  calls, with \<^verbatim>\<open>null\<close> for the ISS, from the instant the last call has settled.
\<close>

theorem timeout_aborts_own_call_only:
  "(open_after (int (timer_delay timeout)) (fetch u) \<longrightarrow>
      snd (fetchJSON msg fetch u timeout)
        = (timer_delay timeout, Rejected (JsError ''Error'' (''Fetch failed: '' @ msg))))
   \<and> (\<forall>ta a ts s nv.
        open_after 15000 (fetch_iss rt iss_url)
        \<and> snd (apod_call (start_report_calls rt clk inc)) = (ta, Fulfilled a)
        \<and> snd (astros_call (start_report_calls rt clk inc)) = (ts, Fulfilled s)
        \<and> map_option snd (neo_call (start_report_calls rt clk inc))
            = map_option (\<lambda>(tn, f). (tn, Fulfilled f)) nv
        \<longrightarrow>
        join_report_calls (start_report_calls rt clk inc)
          = (max ta (max ts (max 15000 (case nv of None \<Rightarrow> 0 | Some (tn, f) \<Rightarrow> tn))),
             Fulfilled (a, s, None, map_option snd nv)))"
proof -
  have others: "join_report_calls (start_report_calls rt clk inc)
          = (max ta (max ts (max 15000 (case nv of None \<Rightarrow> 0 | Some (tn, f) \<Rightarrow> tn))),
             Fulfilled (a, s, None, map_option snd nv))"
    if iss: "open_after 15000 (fetch_iss rt iss_url)"
      and apod: "snd (apod_call (start_report_calls rt clk inc)) = (ta, Fulfilled a)"
      and astros: "snd (astros_call (start_report_calls rt clk inc)) = (ts, Fulfilled s)"
      and neo: "map_option snd (neo_call (start_report_calls rt clk inc))
            = map_option (\<lambda>(tn, f). (tn, Fulfilled f)) nv"
    for ta a ts s nv
  proof -
    have d: "timer_delay 15000 = 15000" by (simp add: timer_delay_def)
    from iss have "open_after (int (timer_delay 15000)) (fetch_iss rt iss_url)" by (simp add: d)
    with open_call_is_aborted[where timeout = 15000 and fetch = "fetch_iss rt" and u = iss_url
        and msg = "abort_message rt"]
    have "snd (iss_call (start_report_calls rt clk inc))
        = (15000, Rejected (JsError ''Error'' (''Fetch failed: '' @ abort_message rt)))"
      by (simp add: start_report_calls_def d)
    from join_with_iss_rejected[OF this apod astros neo] show ?thesis .
  qed
  from open_call_is_aborted[where timeout = timeout and fetch = "fetch" and u = u and msg = msg] others
  show ?thesis by blast
qed

text \<open>
  The theorem at an ISS request that would answer after 20000 ms, alone and in a run of
  the report with the feed: the call is rejected at 15000 ms, and the handler awaits the
  three other documents from then on.
\<close>

theorem timeout_aborts_own_call_only_witness:
  "open_after (int (timer_delay 15000)) ((\<lambda>u. Responds 20000 200 (Json sample_iss)) iss_url)
   \<and> snd (fetchJSON ''The operation was aborted.'' (\<lambda>u. Responds 20000 200 (Json sample_iss)) iss_url 15000)
       = (15000, Rejected (JsError ''Error'' ''Fetch failed: The operation was aborted.''))
   \<and> join_report_calls (start_report_calls
         (sample_runtime\<lparr> fetch_iss := (\<lambda>u. Responds 20000 200 (Json sample_iss)) \<rparr>) sample_clock True)
       = (15000, Fulfilled (sample_apod, sample_astros, None, Some sample_feed))"
proof -
  let ?rt = "sample_runtime\<lparr> fetch_iss := (\<lambda>u. Responds 20000 200 (Json sample_iss)) \<rparr>"
  have d: "timer_delay 15000 = 15000" by (simp add: timer_delay_def)
  have open_iss: "open_after (int (timer_delay 15000)) ((\<lambda>u. Responds 20000 200 (Json sample_iss)) iss_url)"
    by (simp add: d)
  have hyps: "open_after 15000 (fetch_iss ?rt iss_url)
        \<and> snd (apod_call (start_report_calls ?rt sample_clock True)) = (120, Fulfilled sample_apod)
        \<and> snd (astros_call (start_report_calls ?rt sample_clock True)) = (500, Fulfilled sample_astros)
        \<and> map_option snd (neo_call (start_report_calls ?rt sample_clock True))
            = map_option (\<lambda>(tn, f). (tn, Fulfilled f)) (Some (300, sample_feed))"
    by (simp add: run_defs)
  note inst = timeout_aborts_own_call_only
      [of 15000 "\<lambda>u. Responds 20000 200 (Json sample_iss)" iss_url "''The operation was aborted.''"
          ?rt sample_clock True]
  have "snd (fetchJSON ''The operation was aborted.'' (\<lambda>u. Responds 20000 200 (Json sample_iss)) iss_url 15000)
       = (15000, Rejected (JsError ''Error'' ''Fetch failed: The operation was aborted.''))"
    using inst[THEN conjunct1] open_iss by (simp add: d)
  moreover have "join_report_calls (start_report_calls ?rt sample_clock True)
       = (15000, Fulfilled (sample_apod, sample_astros, None, Some sample_feed))"
    using inst[THEN conjunct2, rule_format, OF hyps] by simp
  ultimately show ?thesis using open_iss by blast
qed

section \<open>Two runs against the same upstream\<close>

lemma map_and_then_Inr:
  "map_prod id (map_settled g) (and_then (\<lambda>v. Inr (f v)) p) = and_then (\<lambda>v. Inr (g (f v))) p"
  by (cases p; cases "snd p") auto

lemma map_and_then:
  "map_prod id (map_settled g) (and_then f p) = and_then (\<lambda>v. map_sum id g (f v)) p"
proof (cases p)
  case (Pair t r)
  show ?thesis
  proof (cases r)
    case (Fulfilled v)
    with Pair show ?thesis by (cases "f v") simp_all
  next
    case (Rejected e)
    with Pair show ?thesis by simp
  qed
qed

lemma report_result_up_to_fetchedAt:
  assumes "before_T (started c1) = before_T (started c2)"
  shows "map_sum id (report_fetchedAt_update (\<lambda>_. [])) (report_result rt c1 v)
       = map_sum id (report_fetchedAt_update (\<lambda>_. [])) (report_result rt c2 v)"
proof -
  obtain a s i n where v: "v = (a, s, i, n)" by (cases v)
  show ?thesis
    by (cases "group_by_craft Map.empty (people s)") (simp_all add: report_result_def v assms)
qed

text \<open>
  Claim C8 (two runs against the same deterministic upstream give identical results), as
  stated, at two runs of the overview that end at different instants: the outputs differ,
  in \<open>fetchedAt\<close>.
\<close>

theorem fetchedAt_differs_between_runs:
  "snd (overview_handler sample_runtime sample_clock)
     \<noteq> snd (overview_handler sample_runtime (sample_clock\<lparr> finished := ''2024-05-01T10:00:07.000Z'' \<rparr>))"
  by (simp add: overview_handler_def fetchJSON_def timer_delay_def ok_def sample_runtime_def
      sample_clock_def overview_result_def)

text \<open>
  Claim C8, amended. Two runs of the overview against the same upstream make the same
  requests and settle at the same instant to outputs that agree in every field but
  \<open>fetchedAt\<close>, which is the clock's reading. The same holds of two runs of the asteroids
  entrypoint entered on the same day (its default date range, and so its request, start at
  the day of the run), and of two runs of the report entered on the same day for which the
  day three days on is the same too (the request for the feed and the report's date are
  taken from the clock).
\<close>

theorem runs_agree_up_to_fetchedAt:
  "fst (overview_handler rt c1) = fst (overview_handler rt c2)
   \<and> map_prod id (map_settled (overview_fetchedAt_update (\<lambda>_. []))) (snd (overview_handler rt c1))
     = map_prod id (map_settled (overview_fetchedAt_update (\<lambda>_. []))) (snd (overview_handler rt c2))
   \<and> (before_T (started c1) = before_T (started c2) \<longrightarrow>
        fst (asteroids_handler rt c1 input) = fst (asteroids_handler rt c2 input)
        \<and> map_prod id (map_settled (fetchedAt_update (\<lambda>_. []))) (snd (asteroids_handler rt c1 input))
          = map_prod id (map_settled (fetchedAt_update (\<lambda>_. []))) (snd (asteroids_handler rt c2 input)))
   \<and> (before_T (started c1) = before_T (started c2)
        \<and> before_T (in_three_days c1) = before_T (in_three_days c2) \<longrightarrow>
        fst (report_handler rt c1 inc) = fst (report_handler rt c2 inc)
        \<and> map_prod id (map_settled (report_fetchedAt_update (\<lambda>_. []))) (snd (report_handler rt c1 inc))
          = map_prod id (map_settled (report_fetchedAt_update (\<lambda>_. []))) (snd (report_handler rt c2 inc)))"
proof (intro conjI impI)
  show "fst (overview_handler rt c1) = fst (overview_handler rt c2)"
    by (simp add: overview_handler_def fetchJSON_def)
  show "map_prod id (map_settled (overview_fetchedAt_update (\<lambda>_. []))) (snd (overview_handler rt c1))
     = map_prod id (map_settled (overview_fetchedAt_update (\<lambda>_. []))) (snd (overview_handler rt c2))"
    by (simp add: overview_handler_def split_def Let_def map_and_then_Inr overview_result_def)
next
  assume day: "before_T (started c1) = before_T (started c2)"
  show "fst (asteroids_handler rt c1 input) = fst (asteroids_handler rt c2 input)"
    by (simp add: asteroids_handler_def day Let_def split_def split: sum.splits)
  show "map_prod id (map_settled (fetchedAt_update (\<lambda>_. []))) (snd (asteroids_handler rt c1 input))
          = map_prod id (map_settled (fetchedAt_update (\<lambda>_. []))) (snd (asteroids_handler rt c2 input))"
    by (simp add: asteroids_handler_def day Let_def split_def map_and_then_Inr asteroids_result_def
        split: sum.splits)
next
  assume days: "before_T (started c1) = before_T (started c2)
        \<and> before_T (in_three_days c1) = before_T (in_three_days c2)"
  then have calls: "start_report_calls rt c1 inc = start_report_calls rt c2 inc"
    by (simp add: start_report_calls_def)
  show "fst (report_handler rt c1 inc) = fst (report_handler rt c2 inc)"
    by (simp add: report_handler_def Let_def calls)
  from days have result: "(\<lambda>v. map_sum id (report_fetchedAt_update (\<lambda>_. [])) (report_result rt c1 v))
       = (\<lambda>v. map_sum id (report_fetchedAt_update (\<lambda>_. [])) (report_result rt c2 v))"
    by (intro ext report_result_up_to_fetchedAt) simp
  show "map_prod id (map_settled (report_fetchedAt_update (\<lambda>_. []))) (snd (report_handler rt c1 inc))
          = map_prod id (map_settled (report_fetchedAt_update (\<lambda>_. []))) (snd (report_handler rt c2 inc))"
    by (simp only: report_handler_def Let_def snd_conv calls map_and_then result)
qed

text \<open>
  The theorem at two runs of the asteroids entrypoint and of the report on the same day,
  some hours apart.
\<close>

theorem runs_agree_up_to_fetchedAt_witness:
  "before_T (started sample_clock)
     = before_T (started (sample_clock\<lparr> started := ''2024-05-01T23:10:00.000Z'',
                                         in_three_days := ''2024-05-04T23:10:00.000Z'',
                                         finished := ''2024-05-01T23:10:00.400Z'' \<rparr>))
   \<and> before_T (in_three_days sample_clock)
     = before_T (in_three_days (sample_clock\<lparr> started := ''2024-05-01T23:10:00.000Z'',
                                         in_three_days := ''2024-05-04T23:10:00.000Z'',
                                         finished := ''2024-05-01T23:10:00.400Z'' \<rparr>))
   \<and> map_prod id (map_settled (fetchedAt_update (\<lambda>_. [])))
        (snd (asteroids_handler sample_runtime sample_clock \<lparr> startDate = None, endDate = None \<rparr>))
     = map_prod id (map_settled (fetchedAt_update (\<lambda>_. [])))
        (snd (asteroids_handler sample_runtime
           (sample_clock\<lparr> started := ''2024-05-01T23:10:00.000Z'',
                          in_three_days := ''2024-05-04T23:10:00.000Z'',
                          finished := ''2024-05-01T23:10:00.400Z'' \<rparr>)
           \<lparr> startDate = None, endDate = None \<rparr>))
   \<and> map_prod id (map_settled (report_fetchedAt_update (\<lambda>_. [])))
        (snd (report_handler sample_runtime sample_clock True))
     = map_prod id (map_settled (report_fetchedAt_update (\<lambda>_. [])))
        (snd (report_handler sample_runtime
           (sample_clock\<lparr> started := ''2024-05-01T23:10:00.000Z'',
                          in_three_days := ''2024-05-04T23:10:00.000Z'',
                          finished := ''2024-05-01T23:10:00.400Z'' \<rparr>)
           True))"
proof -
  let ?c2 = "sample_clock\<lparr> started := ''2024-05-01T23:10:00.000Z'',
                          in_three_days := ''2024-05-04T23:10:00.000Z'',
                          finished := ''2024-05-01T23:10:00.400Z'' \<rparr>"
  have day: "before_T (started sample_clock) = before_T (started ?c2)"
    by (simp add: before_T_def sample_clock_def)
  have later: "before_T (in_three_days sample_clock) = before_T (in_three_days ?c2)"
    by (simp add: before_T_def sample_clock_def)
  note inst = runs_agree_up_to_fetchedAt
      [of sample_runtime sample_clock ?c2 "\<lparr> startDate = None, endDate = None \<rparr>" True]
  from inst day have "map_prod id (map_settled (fetchedAt_update (\<lambda>_. [])))
        (snd (asteroids_handler sample_runtime sample_clock \<lparr> startDate = None, endDate = None \<rparr>))
     = map_prod id (map_settled (fetchedAt_update (\<lambda>_. [])))
        (snd (asteroids_handler sample_runtime ?c2 \<lparr> startDate = None, endDate = None \<rparr>))"
    by blast
  moreover from inst day later have "map_prod id (map_settled (report_fetchedAt_update (\<lambda>_. [])))
        (snd (report_handler sample_runtime sample_clock True))
     = map_prod id (map_settled (report_fetchedAt_update (\<lambda>_. [])))
        (snd (report_handler sample_runtime ?c2 True))"
    by blast
  ultimately show ?thesis using day later by blast
qed

end
